theory Spec2Isabelle
  imports Main "HOL-Library.AList"
begin

section \<open>Python values, exceptions and the session object\<close>

text \<open>
  The module \<^verbatim>\<open>Spreadsheet.py\<close> builds JSON-like request bodies out of Python
  dictionaries, lists, strings and integers. \<open>pyval\<close> is that value universe. A dictionary
  is an association list in insertion order with string keys; \<open>py_setitem\<close> overwrites
  the value of a key that is present and appends a key that is absent, as Python's
  \<^verbatim>\<open>d[k] = v\<close> does. Strings are lists of \<open>char\<close>; the development is about
  range expressions and titles written in ASCII.
\<close>

datatype pyval =
    PNone
  | PBool bool
  | PInt int
  | PStr string
  | PList "pyval list"
  | PDict "(string \<times> pyval) list"

text \<open>
  The exceptions that can leave the modelled methods: the two classes the module declares,
  the built-in ones raised by indexing, unpacking and \<^verbatim>\<open>int()\<close>, and
  \<open>HttpError\<close> for a remote call that the service rejects.
\<close>

datatype exn =
    SpreadsheetNotSetError
  | SheetNotSetError
  | IndexError
  | KeyError
  | ValueError
  | TypeError
  | HttpError string

text \<open>
  The attributes of class \<^verbatim>\<open>Spreadsheet\<close> that the modelled methods read or write.
  \<^verbatim>\<open>None\<close> is \<open>PNone\<close>. The credentials, the service handles and
  \<^verbatim>\<open>debugMode\<close> (which only prints) are left out.
\<close>

record session =
  spreadsheetId :: pyval
  sheetId :: pyval
  sheetTitle :: pyval
  requests :: "pyval list"
  valueRanges :: "pyval list"

text \<open>The state \<^verbatim>\<open>__init__\<close> leaves behind.\<close>

definition init_session :: session where
  "init_session =
     \<lparr>spreadsheetId = PNone, sheetId = PNone, sheetTitle = PNone,
      requests = [], valueRanges = []\<rparr>"

subsection \<open>Subscripting\<close>

text \<open>\<^verbatim>\<open>d[k] = v\<close> on a dictionary.\<close>

definition py_setitem :: "string \<Rightarrow> pyval \<Rightarrow> (string \<times> pyval) list \<Rightarrow> (string \<times> pyval) list" where
  "py_setitem k v d = AList.update k v d"

text \<open>\<^verbatim>\<open>k in d\<close> and \<^verbatim>\<open>d.get(k)\<close>, used to state what a result holds.\<close>

definition py_get :: "pyval \<Rightarrow> string \<Rightarrow> pyval option" where
  "py_get x k = (case x of PDict d \<Rightarrow> map_of d k | _ \<Rightarrow> None)"

definition py_keys :: "pyval \<Rightarrow> string set" where
  "py_keys x = (case x of PDict d \<Rightarrow> set (map fst d) | _ \<Rightarrow> {})"

text \<open>
  \<^verbatim>\<open>x[k]\<close> with a string key: a missing key raises KeyError, and a value that
  is not a dictionary raises TypeError.
\<close>

definition py_getitem :: "pyval \<Rightarrow> string \<Rightarrow> exn + pyval" where
  "py_getitem x k =
     (case x of
        PDict d \<Rightarrow> (case map_of d k of None \<Rightarrow> Inl KeyError | Some v \<Rightarrow> Inr v)
      | _ \<Rightarrow> Inl TypeError)"

text \<open>
  \<^verbatim>\<open>x[0]\<close>: the first element of a list or the first character of a string
  (IndexError when empty), KeyError on a dictionary (whose keys are strings), TypeError
  on anything else.
\<close>

definition py_getitem0 :: "pyval \<Rightarrow> exn + pyval" where
  "py_getitem0 x =
     (case x of
        PList [] \<Rightarrow> Inl IndexError
      | PList (v # _) \<Rightarrow> Inr v
      | PStr [] \<Rightarrow> Inl IndexError
      | PStr (c # _) \<Rightarrow> Inr (PStr [c])
      | PDict _ \<Rightarrow> Inl KeyError
      | _ \<Rightarrow> Inl TypeError)"

section \<open>Strings: split and int\<close>

text \<open>\<^verbatim>\<open>s.split(sep)\<close> for a one-character separator: never an empty list.\<close>

fun split_str :: "char \<Rightarrow> string \<Rightarrow> string list" where
  "split_str sep [] = [[]]"
| "split_str sep (c # cs) =
     (if c = sep then [] # split_str sep cs
      else (case split_str sep cs of
              [] \<Rightarrow> [[c]]
            | t # ts \<Rightarrow> (c # t) # ts))"

text \<open>\<^verbatim>\<open>ord(c)\<close>.\<close>

definition ord :: "char \<Rightarrow> int" where
  "ord c = of_char c"

definition is_digit :: "char \<Rightarrow> bool" where
  "is_digit c \<longleftrightarrow> 48 \<le> ord c \<and> ord c \<le> 57"

definition digit_val :: "char \<Rightarrow> int" where
  "digit_val c = ord c - 48"

text \<open>
  The characters \<^verbatim>\<open>int()\<close> skips at both ends: tab, line feed, vertical tab, form
  feed, carriage return, the four separators 28 to 31 and the space.
\<close>

definition is_space :: "char \<Rightarrow> bool" where
  "is_space c \<longleftrightarrow> (9 \<le> ord c \<and> ord c \<le> 13) \<or> (28 \<le> ord c \<and> ord c \<le> 32)"

definition strip :: "string \<Rightarrow> string" where
  "strip s = rev (dropWhile is_space (rev (dropWhile is_space s)))"

text \<open>
  The digits of a decimal literal after its first digit, with the value read so far:
  a digit extends the number, an underscore must be followed by a digit.
\<close>

fun int_digits :: "int \<Rightarrow> string \<Rightarrow> int option" where
  "int_digits n [] = Some n"
| "int_digits n (c # cs) =
     (if is_digit c then int_digits (10 * n + digit_val c) cs
      else if c = CHR ''_'' then
        (case cs of
           [] \<Rightarrow> None
         | d # ds \<Rightarrow> if is_digit d then int_digits (10 * n + digit_val d) ds else None)
      else None)"

definition int_unsigned :: "string \<Rightarrow> int option" where
  "int_unsigned s =
     (case s of
        [] \<Rightarrow> None
      | c # cs \<Rightarrow> if is_digit c then int_digits (digit_val c) cs else None)"

text \<open>
  \<^verbatim>\<open>int(s)\<close> in base ten on ASCII text: surrounding white space, one optional
  sign, then digits with single underscores allowed between them. \<open>None\<close> stands for
  ValueError. Python's integers are unbounded, so is \<open>int\<close>; an interpreter's optional
  limit on the length of a converted string is not part of the model.
\<close>

definition py_int :: "string \<Rightarrow> int option" where
  "py_int s =
     (case strip s of
        [] \<Rightarrow> None
      | c # cs \<Rightarrow>
          if c = CHR ''-'' then map_option uminus (int_unsigned cs)
          else if c = CHR ''+'' then int_unsigned cs
          else int_unsigned (c # cs))"

section \<open>toGridRange\<close>

text \<open>\<^verbatim>\<open>ord(c) in range(ord('A'), ord('Z') + 1)\<close>.\<close>

definition in_rangeAZ :: "char \<Rightarrow> bool" where
  "in_rangeAZ c \<longleftrightarrow> ord CHR ''A'' \<le> ord c \<and> ord c < ord CHR ''Z'' + 1"

text \<open>
  The string branch of \<^verbatim>\<open>toGridRange\<close>, statement by statement. Unpacking the
  first two tokens fails with ValueError when the string holds no colon; reading the first
  character of an empty token fails with IndexError, for the start token first; the two
  row numbers are converted after both letters have been looked at.
\<close>

definition str_toGridRange :: "string \<Rightarrow> exn + (string \<times> pyval) list" where
  "str_toGridRange s =
     (case take 2 (split_str CHR '':'' s) of
        [startCell, endCell] \<Rightarrow>
          (case startCell of
             [] \<Rightarrow> Inl IndexError
           | c1 # rest1 \<Rightarrow>
               let d1 = (if in_rangeAZ c1
                         then py_setitem ''startColumnIndex'' (PInt (ord c1 - ord CHR ''A'')) []
                         else []);
                   startCell1 = (if in_rangeAZ c1 then rest1 else startCell)
               in
               (case endCell of
                  [] \<Rightarrow> Inl IndexError
                | c2 # rest2 \<Rightarrow>
                    let d2 = (if in_rangeAZ c2
                              then py_setitem ''endColumnIndex'' (PInt (ord c2 - ord CHR ''A'' + 1)) d1
                              else d1);
                        endCell1 = (if in_rangeAZ c2 then rest2 else endCell)
                    in
                    (case (if length startCell1 > 0
                           then (case py_int startCell1 of
                                   None \<Rightarrow> Inl ValueError
                                 | Some n \<Rightarrow> Inr (py_setitem ''startRowIndex'' (PInt (n - 1)) d2))
                           else Inr d2) of
                       Inl e \<Rightarrow> Inl e
                     | Inr d3 \<Rightarrow>
                         (if length endCell1 > 0
                          then (case py_int endCell1 of
                                  None \<Rightarrow> Inl ValueError
                                | Some n \<Rightarrow> Inr (py_setitem ''endRowIndex'' (PInt n) d3))
                          else Inr d3))))
      | _ \<Rightarrow> Inl ValueError)"

text \<open>
  \<^verbatim>\<open>toGridRange\<close>: the sheet check comes first; a string is parsed, anything else
  is used as it is; then \<^verbatim>\<open>cellsRange["sheetId"] = self.sheetId\<close>, which raises
  TypeError on a value that is not a dictionary.
\<close>

definition toGridRange :: "session \<Rightarrow> pyval \<Rightarrow> exn + pyval" where
  "toGridRange self cellsRange =
     (if sheetId self = PNone then Inl SheetNotSetError
      else
        (case cellsRange of
           PStr s \<Rightarrow>
             (case str_toGridRange s of
                Inl e \<Rightarrow> Inl e
              | Inr d \<Rightarrow> Inr (PDict (py_setitem ''sheetId'' (sheetId self) d)))
         | PDict d \<Rightarrow> Inr (PDict (py_setitem ''sheetId'' (sheetId self) d))
         | _ \<Rightarrow> Inl TypeError))"

section \<open>The queues and the remote service\<close>

text \<open>
  The two remote calls \<^verbatim>\<open>runPrepared\<close> makes, with the arguments it passes:
  \<^verbatim>\<open>spreadsheets().batchUpdate(spreadsheetId, body)\<close> and
  \<^verbatim>\<open>spreadsheets().values().batchUpdate(spreadsheetId, body)\<close>.
\<close>

datatype call =
    BatchUpdate pyval pyval
  | ValuesBatchUpdate pyval pyval

text \<open>
  The remote service is outside the module. It is a parameter: given the calls already made
  and the call being executed, \<^verbatim>\<open>execute()\<close> either raises or returns the parsed
  response. Every executed call is appended to a log, so that the number and content of the
  outbound calls can be stated.
\<close>

type_synonym service = "call list \<Rightarrow> call \<Rightarrow> exn + pyval"

text \<open>
  The body of the \<^verbatim>\<open>try\<close> block: the structural call when the structural queue
  is not empty, then the value call when the value queue is not empty. An exception of the
  first call skips the second.
\<close>

definition run_calls :: "service \<Rightarrow> pyval \<Rightarrow> session \<Rightarrow> call list \<Rightarrow> (exn + pyval \<times> pyval) \<times> call list" where
  "run_calls svc valueInputOption self log =
     (let c1 = BatchUpdate (spreadsheetId self) (PDict [(''requests'', PList (requests self))]);
          (r1, log1) = (if length (requests self) > 0 then (svc log c1, log @ [c1])
                        else (Inr (PDict [(''replies'', PList [])]), log))
      in
      (case r1 of
         Inl e \<Rightarrow> (Inl e, log1)
       | Inr upd1Res \<Rightarrow>
           let c2 = ValuesBatchUpdate (spreadsheetId self)
                      (PDict [(''valueInputOption'', valueInputOption),
                              (''data'', PList (valueRanges self))]);
               (r2, log2) = (if length (valueRanges self) > 0 then (svc log1 c2, log1 @ [c2])
                             else (Inr (PDict [(''responses'', PList [])]), log1))
           in
           (case r2 of
              Inl e \<Rightarrow> (Inl e, log2)
            | Inr upd2Res \<Rightarrow> (Inr (upd1Res, upd2Res), log2))))"

text \<open>
  \<^verbatim>\<open>runPrepared\<close>: the spreadsheet check is made before the \<^verbatim>\<open>try\<close>
  statement; the \<^verbatim>\<open>finally\<close> clause resets both queues; the return statement
  subscripts the two responses.
\<close>

definition runPrepared :: "service \<Rightarrow> pyval \<Rightarrow> session \<times> call list \<Rightarrow> (exn + pyval \<times> pyval) \<times> session \<times> call list" where
  "runPrepared svc valueInputOption st =
     (let (self, log) = st in
      if spreadsheetId self = PNone then (Inl SpreadsheetNotSetError, self, log)
      else
        (let (res, log1) = run_calls svc valueInputOption self log;
             self1 = self\<lparr>requests := [], valueRanges := []\<rparr>
         in
         (case res of
            Inl e \<Rightarrow> (Inl e, self1, log1)
          | Inr (upd1Res, upd2Res) \<Rightarrow>
              (case py_getitem upd1Res ''replies'' of
                 Inl e \<Rightarrow> (Inl e, self1, log1)
               | Inr replies \<Rightarrow>
                   (case py_getitem upd2Res ''responses'' of
                      Inl e \<Rightarrow> (Inl e, self1, log1)
                    | Inr responses \<Rightarrow> (Inr (replies, responses), self1, log1))))))"

text \<open>The default \<^verbatim>\<open>valueInputOption\<close> of \<^verbatim>\<open>runPrepared\<close>.\<close>

definition USER_ENTERED :: pyval where
  "USER_ENTERED = PStr ''USER_ENTERED''"

section \<open>The prepare operations\<close>

definition prepare_addSheet :: "session \<Rightarrow> pyval \<Rightarrow> pyval \<Rightarrow> pyval \<Rightarrow> session" where
  "prepare_addSheet self title rows cols =
     self\<lparr>requests := requests self @
       [PDict [(''addSheet'', PDict [(''properties'',
          PDict [(''title'', title),
                 (''gridProperties'', PDict [(''rowCount'', rows), (''columnCount'', cols)])])])]]\<rparr>"

text \<open>
  The operations below can raise. They return the outcome (\<open>Inr ()\<close> for a normal
  return) together with the session as it is when the call ends.
\<close>

definition prepare_setDimensionPixelSize :: "session \<Rightarrow> pyval \<Rightarrow> pyval \<Rightarrow> pyval \<Rightarrow> pyval \<Rightarrow> (exn + unit) \<times> session" where
  "prepare_setDimensionPixelSize self dimension startIndex endIndex pixelSize =
     (if sheetId self = PNone then (Inl SheetNotSetError, self)
      else (Inr (), self\<lparr>requests := requests self @
        [PDict [(''updateDimensionProperties'', PDict
           [(''range'', PDict [(''sheetId'', sheetId self),
                               (''dimension'', dimension),
                               (''startIndex'', startIndex),
                               (''endIndex'', endIndex)]),
            (''properties'', PDict [(''pixelSize'', pixelSize)]),
            (''fields'', PStr ''pixelSize'')])]]\<rparr>))"

text \<open>
  The column and row indices are integers (\<^verbatim>\<open>endCol + 1\<close> is computed); the size
  is passed through.
\<close>

definition prepare_setColumnsWidth :: "session \<Rightarrow> int \<Rightarrow> int \<Rightarrow> pyval \<Rightarrow> (exn + unit) \<times> session" where
  "prepare_setColumnsWidth self startCol endCol width =
     prepare_setDimensionPixelSize self (PStr ''COLUMNS'') (PInt startCol) (PInt (endCol + 1)) width"

definition prepare_setColumnWidth :: "session \<Rightarrow> int \<Rightarrow> pyval \<Rightarrow> (exn + unit) \<times> session" where
  "prepare_setColumnWidth self col width = prepare_setColumnsWidth self col col width"

definition prepare_setRowsHeight :: "session \<Rightarrow> int \<Rightarrow> int \<Rightarrow> pyval \<Rightarrow> (exn + unit) \<times> session" where
  "prepare_setRowsHeight self startRow endRow height =
     prepare_setDimensionPixelSize self (PStr ''ROWS'') (PInt startRow) (PInt (endRow + 1)) height"

definition prepare_setRowHeight :: "session \<Rightarrow> int \<Rightarrow> pyval \<Rightarrow> (exn + unit) \<times> session" where
  "prepare_setRowHeight self row height = prepare_setRowsHeight self row row height"

text \<open>
  \<^verbatim>\<open>prepare_setValues\<close> takes the range as a string. Concatenating a title that is
  not a string with \<^verbatim>\<open>"!"\<close> raises TypeError.
\<close>

definition prepare_setValues :: "session \<Rightarrow> string \<Rightarrow> pyval \<Rightarrow> pyval \<Rightarrow> (exn + unit) \<times> session" where
  "prepare_setValues self cellsRange values majorDimension =
     (if sheetTitle self = PNone then (Inl SheetNotSetError, self)
      else
        (case sheetTitle self of
           PStr title \<Rightarrow>
             (Inr (), self\<lparr>valueRanges := valueRanges self @
               [PDict [(''range'', PStr (title @ ''!'' @ cellsRange)),
                       (''majorDimension'', majorDimension),
                       (''values'', values)]]\<rparr>)
         | _ \<Rightarrow> (Inl TypeError, self)))"

text \<open>The default \<^verbatim>\<open>majorDimension\<close> of \<^verbatim>\<open>prepare_setValues\<close>.\<close>

definition ROWS :: pyval where
  "ROWS = PStr ''ROWS''"

definition prepare_mergeCells :: "session \<Rightarrow> pyval \<Rightarrow> pyval \<Rightarrow> (exn + unit) \<times> session" where
  "prepare_mergeCells self cellsRange mergeType =
     (case toGridRange self cellsRange of
        Inl e \<Rightarrow> (Inl e, self)
      | Inr r \<Rightarrow> (Inr (), self\<lparr>requests := requests self @
          [PDict [(''mergeCells'', PDict [(''range'', r), (''mergeType'', mergeType)])]]\<rparr>))"

definition prepare_setCellsFormat :: "session \<Rightarrow> pyval \<Rightarrow> pyval \<Rightarrow> pyval \<Rightarrow> (exn + unit) \<times> session" where
  "prepare_setCellsFormat self cellsRange formatJSON fields' =
     (case toGridRange self cellsRange of
        Inl e \<Rightarrow> (Inl e, self)
      | Inr r \<Rightarrow> (Inr (), self\<lparr>requests := requests self @
          [PDict [(''repeatCell'', PDict
             [(''range'', r),
              (''cell'', PDict [(''userEnteredFormat'', formatJSON)]),
              (''fields'', fields')])]]\<rparr>))"

text \<open>\<^verbatim>\<open>formatsJSON\<close> is a list of lists, one inner list for each row.\<close>

definition prepare_setCellsFormats :: "session \<Rightarrow> pyval \<Rightarrow> pyval list list \<Rightarrow> pyval \<Rightarrow> (exn + unit) \<times> session" where
  "prepare_setCellsFormats self cellsRange formatsJSON fields' =
     (case toGridRange self cellsRange of
        Inl e \<Rightarrow> (Inl e, self)
      | Inr r \<Rightarrow> (Inr (), self\<lparr>requests := requests self @
          [PDict [(''updateCells'', PDict
             [(''range'', r),
              (''rows'', PList (map (\<lambda>rowFormats.
                  PDict [(''values'', PList (map (\<lambda>cellFormat.
                      PDict [(''userEnteredFormat'', cellFormat)]) rowFormats))]) formatsJSON)),
              (''fields'', fields')])]]\<rparr>))"

section \<open>addSheet\<close>

text \<open>
  \<^verbatim>\<open>self.runPrepared()[0][0]['addSheet']['properties']\<close>: the first element of the
  list of replies, then two dictionary lookups.
\<close>

definition first_added :: "pyval \<Rightarrow> exn + pyval" where
  "first_added replies =
     (case py_getitem0 replies of
        Inl e \<Rightarrow> Inl e
      | Inr reply \<Rightarrow>
          (case py_getitem reply ''addSheet'' of
             Inl e \<Rightarrow> Inl e
           | Inr a \<Rightarrow> py_getitem a ''properties''))"

text \<open>
  \<^verbatim>\<open>addSheet\<close> queues the request, flushes, and binds the session to the sheet its
  lookup returns. The result is the new \<^verbatim>\<open>self.sheetId\<close>.
\<close>

definition addSheet :: "service \<Rightarrow> pyval \<Rightarrow> pyval \<Rightarrow> pyval \<Rightarrow> session \<times> call list \<Rightarrow> (exn + pyval) \<times> session \<times> call list" where
  "addSheet svc title rows cols st =
     (let (self, log) = st in
      if spreadsheetId self = PNone then (Inl SpreadsheetNotSetError, self, log)
      else
        (let self1 = prepare_addSheet self title rows cols;
             (res, self2, log2) = runPrepared svc USER_ENTERED (self1, log)
         in
         (case res of
            Inl e \<Rightarrow> (Inl e, self2, log2)
          | Inr (replies, responses) \<Rightarrow>
              (case first_added replies of
                 Inl e \<Rightarrow> (Inl e, self2, log2)
               | Inr addedSheet \<Rightarrow>
                   (case py_getitem addedSheet ''sheetId'' of
                      Inl e \<Rightarrow> (Inl e, self2, log2)
                    | Inr sid \<Rightarrow>
                        let self3 = self2\<lparr>sheetId := sid\<rparr> in
                        (case py_getitem addedSheet ''title'' of
                           Inl e \<Rightarrow> (Inl e, self3, log2)
                         | Inr t \<Rightarrow> (Inr sid, self3\<lparr>sheetTitle := t\<rparr>, log2)))))))"

section \<open>Range strings of the documented form\<close>

text \<open>
  The vocabulary of the statements about range strings. A token is an optional column letter
  followed by a possibly empty run of decimal digits; \<open>decimal\<close> is the number the
  digits write; \<open>letter_pos\<close> is the position of a letter in the alphabet, from 0;
  \<open>more_tokens\<close> holds of what may follow the second token: nothing, or a colon and
  anything after it.
\<close>

definition letter_pos :: "char \<Rightarrow> int" where
  "letter_pos c = ord c - ord CHR ''A''"

definition decimal :: "string \<Rightarrow> int" where
  "decimal ds = foldl (\<lambda>n c. 10 * n + digit_val c) 0 ds"

definition token :: "char option \<Rightarrow> string \<Rightarrow> string" where
  "token l ds = (case l of None \<Rightarrow> ds | Some c \<Rightarrow> c # ds)"

definition cell_token :: "char option \<Rightarrow> string \<Rightarrow> bool" where
  "cell_token l ds \<longleftrightarrow>
     (case l of None \<Rightarrow> True | Some c \<Rightarrow> in_rangeAZ c) \<and> list_all is_digit ds"

fun more_tokens :: "string \<Rightarrow> bool" where
  "more_tokens [] = True"
| "more_tokens (c # cs) = (c = CHR '':'')"

text \<open>
  The bounds the tokens imply, in the order in which \<^verbatim>\<open>toGridRange\<close> stores them:
  the two column bounds, then the two row bounds.
\<close>

definition expected_bounds :: "char option \<Rightarrow> string \<Rightarrow> char option \<Rightarrow> string \<Rightarrow> (string \<times> pyval) list" where
  "expected_bounds l1 ds1 l2 ds2 =
     (case l1 of None \<Rightarrow> [] | Some c \<Rightarrow> [(''startColumnIndex'', PInt (letter_pos c))]) @
     (case l2 of None \<Rightarrow> [] | Some c \<Rightarrow> [(''endColumnIndex'', PInt (letter_pos c + 1))]) @
     (if ds1 = [] then [] else [(''startRowIndex'', PInt (decimal ds1 - 1))]) @
     (if ds2 = [] then [] else [(''endRowIndex'', PInt (decimal ds2))])"

section \<open>Sessions and a service for the examples\<close>

text \<open>
  A session bound to a spreadsheet, to sheet 7 and to the title Sheet1, with empty queues;
  and a session that has a sheet but no spreadsheet, which the public methods never produce
  but the attributes allow.
\<close>

definition bound_session :: session where
  "bound_session =
     \<lparr>spreadsheetId = PStr ''doc'', sheetId = PInt 7, sheetTitle = PStr ''Sheet1'',
      requests = [], valueRanges = []\<rparr>"

definition sheet_only_session :: session where
  "sheet_only_session =
     \<lparr>spreadsheetId = PNone, sheetId = PInt 7, sheetTitle = PStr ''Sheet1'',
      requests = [], valueRanges = []\<rparr>"

text \<open>
  A service that accepts every batch and answers each request in its position, as the remote
  interface does: the reply to an add-sheet request carries the properties of the added
  sheet, with an identifier drawn from the position of the request; the reply to any other
  request is an empty object.
\<close>

definition reply_for :: "nat \<Rightarrow> pyval \<Rightarrow> pyval" where
  "reply_for i r =
     (case py_get r ''addSheet'' of
        None \<Rightarrow> PDict []
      | Some a \<Rightarrow>
          (case py_get a ''properties'' of
             Some (PDict props) \<Rightarrow>
               PDict [(''addSheet'', PDict [(''properties'',
                 PDict (py_setitem ''sheetId'' (PInt (100 + int i)) props))])]
           | _ \<Rightarrow> PDict []))"

definition positional_service :: service where
  "positional_service log c =
     (case c of
        BatchUpdate sid body \<Rightarrow>
          (case py_get body ''requests'' of
             Some (PList rs) \<Rightarrow>
               Inr (PDict [(''spreadsheetId'', sid),
                           (''replies'', PList (map (\<lambda>(i, r). reply_for i r) (enumerate 0 rs)))])
           | _ \<Rightarrow> Inl (HttpError ''400''))
      | ValuesBatchUpdate sid body \<Rightarrow>
          (case py_get body ''data'' of
             Some (PList ds) \<Rightarrow>
               Inr (PDict [(''spreadsheetId'', sid),
                           (''responses'', PList (map (\<lambda>d. PDict []) ds))])
           | _ \<Rightarrow> Inl (HttpError ''400'')))"

text \<open>A service that rejects every call.\<close>

definition rejecting_service :: service where
  "rejecting_service log c = Inl (HttpError ''403'')"

section \<open>Lemmas on splitting and conversion\<close>

lemma split_str_no_sep: "sep \<notin> set t \<Longrightarrow> split_str sep t = [t]"
  by (induction t) auto

lemma split_str_append: "sep \<notin> set t \<Longrightarrow> split_str sep (t @ sep # u) = t # split_str sep u"
  by (induction t) (auto split: list.splits)

lemma take2_split:
  assumes "CHR '':'' \<notin> set t1" "CHR '':'' \<notin> set t2" "more_tokens rest"
  shows "take 2 (split_str CHR '':'' (t1 @ '':'' @ t2 @ rest)) = [t1, t2]"
proof (cases rest)
  case Nil
  then show ?thesis using assms by (simp add: split_str_append split_str_no_sep)
next
  case (Cons c r)
  with assms(3) have "rest = CHR '':'' # r" by simp
  then show ?thesis using assms(1,2) by (simp add: split_str_append)
qed

lemma digit_not_space: "is_digit c \<Longrightarrow> \<not> is_space c"
  by (auto simp: is_digit_def is_space_def)

lemma digit_not_AZ: "is_digit c \<Longrightarrow> \<not> in_rangeAZ c"
  by (auto simp: is_digit_def in_rangeAZ_def ord_def)

lemma digit_not_colon: "is_digit c \<Longrightarrow> c \<noteq> CHR '':''"
  by (auto simp: is_digit_def ord_def)

lemma AZ_not_colon: "in_rangeAZ c \<Longrightarrow> c \<noteq> CHR '':''"
  by (auto simp: in_rangeAZ_def ord_def)

lemma digit_not_sign: "is_digit c \<Longrightarrow> c \<noteq> CHR ''-'' \<and> c \<noteq> CHR ''+''"
  by (auto simp: is_digit_def ord_def)

lemma dropWhile_none: "\<forall>c\<in>set s. \<not> P c \<Longrightarrow> dropWhile P s = s"
  by (cases s) auto

lemma strip_digits: "list_all is_digit ds \<Longrightarrow> strip ds = ds"
  by (simp add: strip_def dropWhile_none digit_not_space list_all_iff)

lemma int_digits_all:
  "list_all is_digit ds \<Longrightarrow> int_digits n ds = Some (foldl (\<lambda>n c. 10 * n + digit_val c) n ds)"
  by (induction ds arbitrary: n) auto

lemma py_int_digits:
  assumes "ds \<noteq> []" "list_all is_digit ds"
  shows "py_int ds = Some (decimal ds)"
proof -
  from assms(1) obtain c cs where ds: "ds = c # cs" by (cases ds) auto
  with assms(2) have c: "is_digit c" and cs: "list_all is_digit cs" by auto
  have s: "strip (c # cs) = c # cs"
    using strip_digits[OF assms(2)] by (simp add: ds)
  have "py_int ds = int_unsigned (c # cs)"
    using digit_not_sign[OF c] by (simp add: py_int_def s ds)
  also have "\<dots> = Some (decimal ds)"
    using c by (simp add: int_unsigned_def int_digits_all[OF cs] decimal_def ds)
  finally show ?thesis .
qed

lemma token_no_colon: "cell_token l ds \<Longrightarrow> CHR '':'' \<notin> set (token l ds)"
  by (auto simp: cell_token_def token_def list_all_iff
           dest: digit_not_colon AZ_not_colon split: option.splits)

lemma str_toGridRange_form:
  assumes "cell_token l1 ds1" "cell_token l2 ds2"
    and "token l1 ds1 \<noteq> []" "token l2 ds2 \<noteq> []" "more_tokens rest"
  shows "str_toGridRange (token l1 ds1 @ '':'' @ token l2 ds2 @ rest) =
           Inr (expected_bounds l1 ds1 l2 ds2)"
proof -
  have t: "take 2 (split_str CHR '':'' (token l1 ds1 @ '':'' @ token l2 ds2 @ rest)) =
             [token l1 ds1, token l2 ds2]"
    using assms by (intro take2_split token_no_colon)
  have d1: "list_all is_digit ds1" and d2: "list_all is_digit ds2"
    using assms by (auto simp: cell_token_def)
  have i1: "ds1 \<noteq> [] \<Longrightarrow> py_int ds1 = Some (decimal ds1)" using py_int_digits d1 by simp
  have i2: "ds2 \<noteq> [] \<Longrightarrow> py_int ds2 = Some (decimal ds2)" using py_int_digits d2 by simp
  show ?thesis
    unfolding str_toGridRange_def t
    using assms(1-4) i1 i2
    by (cases l1; cases l2; cases ds1; cases ds2)
       (simp_all add: token_def cell_token_def expected_bounds_def py_setitem_def
          letter_pos_def digit_not_AZ Let_def)
qed

lemma toGridRange_form:
  assumes "sheetId self \<noteq> PNone"
    and "cell_token l1 ds1" "cell_token l2 ds2"
    and "token l1 ds1 \<noteq> []" "token l2 ds2 \<noteq> []" "more_tokens rest"
  shows "toGridRange self (PStr (token l1 ds1 @ '':'' @ token l2 ds2 @ rest)) =
           Inr (PDict (expected_bounds l1 ds1 l2 ds2 @ [(''sheetId'', sheetId self)]))"
proof -
  have "py_setitem ''sheetId'' v (expected_bounds l1 ds1 l2 ds2) =
          expected_bounds l1 ds1 l2 ds2 @ [(''sheetId'', v)]" for v
    by (cases l1; cases l2) (simp_all add: expected_bounds_def py_setitem_def)
  then show ?thesis
    using assms(1) str_toGridRange_form[OF assms(2-6)] by (simp add: toGridRange_def)
qed

lemma str_range_empty_token:
  assumes "CHR '':'' \<notin> set t1" "CHR '':'' \<notin> set t2" "more_tokens rest"
    and "t1 = [] \<or> t2 = []"
  shows "str_toGridRange (t1 @ '':'' @ t2 @ rest) = Inl IndexError"
  unfolding str_toGridRange_def take2_split[OF assms(1-3)]
  using assms(4) by (cases t1; cases t2) (simp_all add: Let_def)

lemmas eval_defs =
  toGridRange_def str_toGridRange_def py_setitem_def py_get_def py_keys_def py_int_def
  strip_def is_space_def int_unsigned_def is_digit_def digit_val_def in_rangeAZ_def ord_def
  bound_session_def init_session_def sheet_only_session_def Let_def

lemmas form_defs =
  cell_token_def token_def letter_pos_def decimal_def in_rangeAZ_def is_digit_def
  digit_val_def ord_def

section \<open>Range strings: the bounds that are set\<close>

text \<open>
  C1, as amended. With a sheet bound, for every range string made of a start token and an
  end token of the form optional letter, optional digits, both tokens not empty, and
  possibly followed by further tokens, \<^verbatim>\<open>toGridRange\<close> returns a range that holds
  exactly the bounds the tokens imply: the start letter gives startColumnIndex, its position
  from 0; the end letter gives endColumnIndex, its position plus 1; the start digits give
  startRowIndex, their value minus 1; the end digits give endRowIndex, their value; a part
  that is absent gives no bound; sheetId is the only other key. Tokens after the second are
  ignored. The three documented examples A3:B4, A5:B and A:B give the documented ranges.
\<close>

theorem toGridRange_bounds:
  assumes "sheetId self \<noteq> PNone"
    and "cell_token l1 ds1" and "cell_token l2 ds2"
    and "token l1 ds1 \<noteq> []" and "token l2 ds2 \<noteq> []"
    and "more_tokens rest"
  shows "(\<exists>r. toGridRange self (PStr (token l1 ds1 @ '':'' @ token l2 ds2 @ rest)) = Inr r
            \<and> py_get r ''startColumnIndex'' = map_option (\<lambda>c. PInt (letter_pos c)) l1
            \<and> py_get r ''endColumnIndex'' = map_option (\<lambda>c. PInt (letter_pos c + 1)) l2
            \<and> py_get r ''startRowIndex'' = (if ds1 = [] then None else Some (PInt (decimal ds1 - 1)))
            \<and> py_get r ''endRowIndex'' = (if ds2 = [] then None else Some (PInt (decimal ds2)))
            \<and> py_get r ''sheetId'' = Some (sheetId self)
            \<and> py_keys r \<subseteq> {''startColumnIndex'', ''endColumnIndex'', ''startRowIndex'',
                             ''endRowIndex'', ''sheetId''})
       \<and> toGridRange self (PStr ''A3:B4'') =
            Inr (PDict [(''startColumnIndex'', PInt 0), (''endColumnIndex'', PInt 2),
                        (''startRowIndex'', PInt 2), (''endRowIndex'', PInt 4),
                        (''sheetId'', sheetId self)])
       \<and> toGridRange self (PStr ''A5:B'') =
            Inr (PDict [(''startColumnIndex'', PInt 0), (''endColumnIndex'', PInt 2),
                        (''startRowIndex'', PInt 4), (''sheetId'', sheetId self)])
       \<and> toGridRange self (PStr ''A:B'') =
            Inr (PDict [(''startColumnIndex'', PInt 0), (''endColumnIndex'', PInt 2),
                        (''sheetId'', sheetId self)])"
proof -
  let ?r = "PDict (expected_bounds l1 ds1 l2 ds2 @ [(''sheetId'', sheetId self)])"
  have r: "toGridRange self (PStr (token l1 ds1 @ '':'' @ token l2 ds2 @ rest)) = Inr ?r"
    by (rule toGridRange_form[OF assms])
  have g1: "py_get ?r ''startColumnIndex'' = map_option (\<lambda>c. PInt (letter_pos c)) l1"
    by (cases l1; cases l2) (simp_all add: py_get_def expected_bounds_def)
  have g2: "py_get ?r ''endColumnIndex'' = map_option (\<lambda>c. PInt (letter_pos c + 1)) l2"
    by (cases l1; cases l2) (simp_all add: py_get_def expected_bounds_def)
  have g3: "py_get ?r ''startRowIndex'' = (if ds1 = [] then None else Some (PInt (decimal ds1 - 1)))"
    by (cases l1; cases l2) (simp_all add: py_get_def expected_bounds_def)
  have g4: "py_get ?r ''endRowIndex'' = (if ds2 = [] then None else Some (PInt (decimal ds2)))"
    by (cases l1; cases l2) (simp_all add: py_get_def expected_bounds_def)
  have g5: "py_get ?r ''sheetId'' = Some (sheetId self)"
    by (cases l1; cases l2) (simp_all add: py_get_def expected_bounds_def)
  have g6: "py_keys ?r \<subseteq> {''startColumnIndex'', ''endColumnIndex'', ''startRowIndex'',
                           ''endRowIndex'', ''sheetId''}"
    by (cases l1; cases l2) (simp_all add: py_keys_def expected_bounds_def)
  have e1: "toGridRange self (PStr ''A3:B4'') =
            Inr (PDict [(''startColumnIndex'', PInt 0), (''endColumnIndex'', PInt 2),
                        (''startRowIndex'', PInt 2), (''endRowIndex'', PInt 4),
                        (''sheetId'', sheetId self)])"
    using assms(1) by (simp add: eval_defs)
  have e2: "toGridRange self (PStr ''A5:B'') =
            Inr (PDict [(''startColumnIndex'', PInt 0), (''endColumnIndex'', PInt 2),
                        (''startRowIndex'', PInt 4), (''sheetId'', sheetId self)])"
    using assms(1) by (simp add: eval_defs)
  have e3: "toGridRange self (PStr ''A:B'') =
            Inr (PDict [(''startColumnIndex'', PInt 0), (''endColumnIndex'', PInt 2),
                        (''sheetId'', sheetId self)])"
    using assms(1) by (simp add: eval_defs)
  show ?thesis
    using r g1 g2 g3 g4 g5 g6 e1 e2 e3 by blast
qed

theorem toGridRange_bounds_witness:
  "sheetId bound_session \<noteq> PNone
   \<and> cell_token (Some CHR ''B'') ''2'' \<and> cell_token None ''17''
   \<and> more_tokens '':x''
   \<and> (\<exists>r. toGridRange bound_session (PStr ''B2:17:x'') = Inr r
          \<and> py_get r ''startColumnIndex'' = Some (PInt 1)
          \<and> py_get r ''endColumnIndex'' = None
          \<and> py_get r ''startRowIndex'' = Some (PInt 1)
          \<and> py_get r ''endRowIndex'' = Some (PInt 17)
          \<and> py_get r ''sheetId'' = Some (PInt 7))"
proof -
  have h1: "sheetId bound_session \<noteq> PNone" by (simp add: bound_session_def)
  have h2: "cell_token (Some CHR ''B'') ''2''" by (simp add: form_defs)
  have h3: "cell_token None ''17''" by (simp add: form_defs)
  have h4: "token (Some CHR ''B'') ''2'' \<noteq> []" by (simp add: token_def)
  have h5: "token None ''17'' \<noteq> []" by (simp add: token_def)
  have h6: "more_tokens '':x''" by simp
  have h7: "sheetId bound_session = PInt 7" by (simp add: bound_session_def)
  show ?thesis
    using h1 h2 h3 h6 toGridRange_bounds[OF h1 h2 h3 h4 h5 h6]
    by (auto simp: token_def letter_pos_def decimal_def digit_val_def ord_def h7)
qed

theorem toGridRange_bounds_counterexample:
  "sheetId bound_session \<noteq> PNone
   \<and> cell_token (Some CHR ''A'') [] \<and> cell_token None []
   \<and> token (Some CHR ''A'') [] @ '':'' @ token None [] = ''A:''
   \<and> toGridRange bound_session (PStr ''A:'') = Inl IndexError"
  by (simp add: eval_defs cell_token_def token_def)

section \<open>The sheet identifier of a range\<close>

text \<open>
  C4. For every input, a range that \<^verbatim>\<open>toGridRange\<close> returns has its sheetId field
  set to the sheet identifier bound in the session; and for every input, with no sheet
  identifier bound, \<^verbatim>\<open>toGridRange\<close> raises SheetNotSetError and returns nothing.
\<close>

theorem toGridRange_sheetId:
  "(\<forall>r. toGridRange self x = Inr r \<longrightarrow> py_get r ''sheetId'' = Some (sheetId self))
   \<and> (sheetId self = PNone \<longrightarrow> toGridRange self x = Inl SheetNotSetError)"
proof -
  have "py_get (PDict (py_setitem ''sheetId'' v d)) ''sheetId'' = Some v" for v d
    by (simp add: py_get_def py_setitem_def update_conv')
  then show ?thesis
    by (auto simp: toGridRange_def split: pyval.splits sum.splits if_splits)
qed

theorem toGridRange_sheetId_witness:
  "toGridRange bound_session (PStr ''A3:B4'') =
     Inr (PDict [(''startColumnIndex'', PInt 0), (''endColumnIndex'', PInt 2),
                 (''startRowIndex'', PInt 2), (''endRowIndex'', PInt 4), (''sheetId'', PInt 7)])
   \<and> py_get (PDict [(''startColumnIndex'', PInt 0), (''endColumnIndex'', PInt 2),
                 (''startRowIndex'', PInt 2), (''endRowIndex'', PInt 4), (''sheetId'', PInt 7)])
        ''sheetId'' = Some (sheetId bound_session)
   \<and> sheetId init_session = PNone
   \<and> toGridRange init_session (PDict []) = Inl SheetNotSetError"
proof -
  have h1: "toGridRange bound_session (PStr ''A3:B4'') =
     Inr (PDict [(''startColumnIndex'', PInt 0), (''endColumnIndex'', PInt 2),
                 (''startRowIndex'', PInt 2), (''endRowIndex'', PInt 4), (''sheetId'', PInt 7)])"
    by (simp add: eval_defs)
  have h2: "sheetId init_session = PNone" by (simp add: init_session_def)
  show ?thesis
    using h1 h2 toGridRange_sheetId[of bound_session "PStr ''A3:B4''"]
      toGridRange_sheetId[of init_session "PDict []"]
    by simp
qed

section \<open>Empty tokens\<close>

text \<open>
  C5, as amended. With a sheet bound, for every range string whose start token or end token
  is empty, \<^verbatim>\<open>toGridRange\<close> raises IndexError (it reads the first character of each
  token) and returns no range, whatever the other token and the tokens after the second are.
\<close>

theorem toGridRange_empty_token:
  assumes "sheetId self \<noteq> PNone"
    and "CHR '':'' \<notin> set t1" and "CHR '':'' \<notin> set t2" and "more_tokens rest"
    and "t1 = [] \<or> t2 = []"
  shows "toGridRange self (PStr (t1 @ '':'' @ t2 @ rest)) = Inl IndexError"
  using assms(1) str_range_empty_token[OF assms(2-5)]
  by (simp add: toGridRange_def)

theorem toGridRange_empty_token_witness:
  "sheetId bound_session \<noteq> PNone \<and> CHR '':'' \<notin> set ''B4'' \<and> more_tokens []
   \<and> toGridRange bound_session (PStr '':B4'') = Inl IndexError"
proof -
  have h1: "sheetId bound_session \<noteq> PNone" by (simp add: bound_session_def)
  have h2: "CHR '':'' \<notin> set []" by simp
  have h3: "CHR '':'' \<notin> set ''B4''" by simp
  have h4: "more_tokens []" by simp
  have h5: "[] = [] \<or> ''B4'' = []" by simp
  show ?thesis
    using h1 h3 h4 toGridRange_empty_token[OF h1 h2 h3 h4 h5] by simp
qed

theorem toGridRange_empty_token_counterexample:
  "sheetId bound_session \<noteq> PNone \<and> toGridRange bound_session (PStr ''A3:'') = Inl IndexError"
  by (simp add: eval_defs)

section \<open>The order of the two ends\<close>

text \<open>
  C6, as amended. \<^verbatim>\<open>toGridRange\<close> does not compare the two ends of a range string.
  For a string of the documented form with both tokens not empty: when both row bounds are
  set, startRowIndex is at most endRowIndex exactly when the start row number is at most the
  end row number plus one; when both column bounds are set, startColumnIndex is at most
  endColumnIndex exactly when the start letter is at most one position after the end letter.
  So the order holds whenever the start cell is neither below nor to the right of the end
  cell, and fails for a range written backwards.
\<close>

theorem toGridRange_order:
  assumes "sheetId self \<noteq> PNone"
    and "cell_token l1 ds1" and "cell_token l2 ds2"
    and "token l1 ds1 \<noteq> []" and "token l2 ds2 \<noteq> []"
    and "more_tokens rest"
  shows "\<exists>r. toGridRange self (PStr (token l1 ds1 @ '':'' @ token l2 ds2 @ rest)) = Inr r
          \<and> (ds1 \<noteq> [] \<and> ds2 \<noteq> [] \<longrightarrow>
               (\<exists>a b. py_get r ''startRowIndex'' = Some (PInt a)
                    \<and> py_get r ''endRowIndex'' = Some (PInt b)
                    \<and> (a \<le> b \<longleftrightarrow> decimal ds1 \<le> decimal ds2 + 1)))
          \<and> (\<forall>c1 c2. l1 = Some c1 \<and> l2 = Some c2 \<longrightarrow>
               (\<exists>a b. py_get r ''startColumnIndex'' = Some (PInt a)
                    \<and> py_get r ''endColumnIndex'' = Some (PInt b)
                    \<and> (a \<le> b \<longleftrightarrow> letter_pos c1 \<le> letter_pos c2 + 1)))"
proof -
  let ?r = "PDict (expected_bounds l1 ds1 l2 ds2 @ [(''sheetId'', sheetId self)])"
  have r: "toGridRange self (PStr (token l1 ds1 @ '':'' @ token l2 ds2 @ rest)) = Inr ?r"
    by (rule toGridRange_form[OF assms])
  have rows: "ds1 \<noteq> [] \<and> ds2 \<noteq> [] \<longrightarrow>
               (\<exists>a b. py_get ?r ''startRowIndex'' = Some (PInt a)
                    \<and> py_get ?r ''endRowIndex'' = Some (PInt b)
                    \<and> (a \<le> b \<longleftrightarrow> decimal ds1 \<le> decimal ds2 + 1))"
    by (cases l1; cases l2) (auto simp: py_get_def expected_bounds_def)
  have cols: "\<forall>c1 c2. l1 = Some c1 \<and> l2 = Some c2 \<longrightarrow>
               (\<exists>a b. py_get ?r ''startColumnIndex'' = Some (PInt a)
                    \<and> py_get ?r ''endColumnIndex'' = Some (PInt b)
                    \<and> (a \<le> b \<longleftrightarrow> letter_pos c1 \<le> letter_pos c2 + 1))"
    by (auto simp: py_get_def expected_bounds_def)
  show ?thesis using r rows cols by blast
qed

theorem toGridRange_order_witness:
  "sheetId bound_session \<noteq> PNone
   \<and> cell_token (Some CHR ''B'') ''2'' \<and> cell_token (Some CHR ''E'') ''7'' \<and> more_tokens []
   \<and> (\<exists>r. toGridRange bound_session (PStr ''B2:E7'') = Inr r
        \<and> (\<exists>a b. py_get r ''startRowIndex'' = Some (PInt a)
               \<and> py_get r ''endRowIndex'' = Some (PInt b) \<and> a \<le> b)
        \<and> (\<exists>a b. py_get r ''startColumnIndex'' = Some (PInt a)
               \<and> py_get r ''endColumnIndex'' = Some (PInt b) \<and> a \<le> b))"
proof -
  have h1: "sheetId bound_session \<noteq> PNone" by (simp add: bound_session_def)
  have h2: "cell_token (Some CHR ''B'') ''2''" by (simp add: form_defs)
  have h3: "cell_token (Some CHR ''E'') ''7''" by (simp add: form_defs)
  have h4: "token (Some CHR ''B'') ''2'' \<noteq> []" by (simp add: token_def)
  have h5: "token (Some CHR ''E'') ''7'' \<noteq> []" by (simp add: token_def)
  have h6: "more_tokens []" by simp
  show ?thesis
    using h1 h2 h3 h6 toGridRange_order[OF h1 h2 h3 h4 h5 h6]
    by (auto simp: token_def letter_pos_def decimal_def digit_val_def ord_def)
qed

theorem toGridRange_order_counterexample:
  "cell_token (Some CHR ''C'') ''5'' \<and> cell_token (Some CHR ''A'') ''3''
   \<and> toGridRange bound_session (PStr ''C5:A3'') =
       Inr (PDict [(''startColumnIndex'', PInt 2), (''endColumnIndex'', PInt 1),
                   (''startRowIndex'', PInt 4), (''endRowIndex'', PInt 3),
                   (''sheetId'', PInt 7)])
   \<and> \<not> (4::int) \<le> 3 \<and> \<not> (2::int) \<le> 1"
  by (simp add: eval_defs cell_token_def)

section \<open>Structured ranges\<close>

text \<open>
  C8. With a sheet bound, for every range given as a dictionary, \<^verbatim>\<open>toGridRange\<close>
  returns the input with the sheetId field set to the bound sheet identifier: every other
  field keeps its value, and no key other than sheetId is added or removed.
\<close>

theorem toGridRange_structured:
  assumes "sheetId self \<noteq> PNone"
  shows "\<exists>r. toGridRange self (PDict d) = Inr r
          \<and> r = PDict (py_setitem ''sheetId'' (sheetId self) d)
          \<and> py_get r ''sheetId'' = Some (sheetId self)
          \<and> (\<forall>k. k \<noteq> ''sheetId'' \<longrightarrow> py_get r k = py_get (PDict d) k)
          \<and> py_keys r = insert ''sheetId'' (py_keys (PDict d))"
  using assms
  by (auto simp: toGridRange_def py_get_def py_keys_def py_setitem_def update_conv' dom_update)

theorem toGridRange_structured_witness:
  "sheetId bound_session \<noteq> PNone
   \<and> toGridRange bound_session
       (PDict [(''startRowIndex'', PInt 1), (''sheetId'', PInt 99), (''note'', PStr ''x'')]) =
     Inr (PDict [(''startRowIndex'', PInt 1), (''sheetId'', PInt 7), (''note'', PStr ''x'')])"
proof -
  have h1: "sheetId bound_session \<noteq> PNone" by (simp add: bound_session_def)
  show ?thesis
    using h1 toGridRange_structured[OF h1,
      of "[(''startRowIndex'', PInt 1), (''sheetId'', PInt 99), (''note'', PStr ''x'')]"]
    by (simp add: py_setitem_def bound_session_def)
qed

section \<open>Flushing the queues\<close>

lemma run_calls_log_empty:
  "requests self = [] \<Longrightarrow> valueRanges self = [] \<Longrightarrow>
     run_calls svc vio self log =
       (Inr (PDict [(''replies'', PList [])], PDict [(''responses'', PList [])]), log)"
  by (simp add: run_calls_def)

lemma runPrepared_unbound:
  "spreadsheetId self = PNone \<Longrightarrow>
     runPrepared svc vio (self, log) = (Inl SpreadsheetNotSetError, self, log)"
  by (simp add: runPrepared_def)

lemma runPrepared_bound:
  assumes "spreadsheetId self \<noteq> PNone"
  shows "\<exists>res log'. runPrepared svc vio (self, log) =
           (res, self\<lparr>requests := [], valueRanges := []\<rparr>, log')"
  using assms by (auto simp: runPrepared_def Let_def split: prod.splits sum.splits)

lemma runPrepared_empty_queues:
  assumes "spreadsheetId self \<noteq> PNone" "requests self = []" "valueRanges self = []"
  shows "runPrepared svc vio (self, log) = (Inr (PList [], PList []), self, log)"
  using assms by (simp add: runPrepared_def run_calls_log_empty py_getitem_def)

text \<open>
  C2, as amended. With a spreadsheet bound, \<^verbatim>\<open>runPrepared\<close> leaves both queues
  empty and the identifiers as they were, whether it returns or raises, so that a second call
  right after it makes no outbound call and returns two empty lists. With no spreadsheet
  bound, \<^verbatim>\<open>runPrepared\<close> raises SpreadsheetNotSetError before the
  \<^verbatim>\<open>try\<close> statement and leaves the session, queues included, as it was.
\<close>

theorem runPrepared_clears_queues:
  "(spreadsheetId self = PNone \<longrightarrow>
      runPrepared svc vio (self, log) = (Inl SpreadsheetNotSetError, self, log))
   \<and> (spreadsheetId self \<noteq> PNone \<longrightarrow>
        (\<exists>res log'.
           runPrepared svc vio (self, log) =
             (res, self\<lparr>requests := [], valueRanges := []\<rparr>, log')
           \<and> runPrepared svc2 vio2 (self\<lparr>requests := [], valueRanges := []\<rparr>, log') =
               (Inr (PList [], PList []), self\<lparr>requests := [], valueRanges := []\<rparr>, log')))"
proof (intro conjI impI)
  assume "spreadsheetId self = PNone"
  then show "runPrepared svc vio (self, log) = (Inl SpreadsheetNotSetError, self, log)"
    by (rule runPrepared_unbound)
next
  assume b: "spreadsheetId self \<noteq> PNone"
  let ?s = "self\<lparr>requests := [], valueRanges := []\<rparr>"
  from runPrepared_bound[OF b] obtain res log' where
    r: "runPrepared svc vio (self, log) = (res, ?s, log')" by blast
  have "runPrepared svc2 vio2 (?s, log') = (Inr (PList [], PList []), ?s, log')"
    using b by (intro runPrepared_empty_queues) simp_all
  with r show "\<exists>res log'. runPrepared svc vio (self, log) = (res, ?s, log')
      \<and> runPrepared svc2 vio2 (?s, log') = (Inr (PList [], PList []), ?s, log')"
    by blast
qed

theorem runPrepared_clears_queues_witness:
  "spreadsheetId init_session = PNone
   \<and> runPrepared rejecting_service USER_ENTERED (init_session, []) =
       (Inl SpreadsheetNotSetError, init_session, [])
   \<and> spreadsheetId (prepare_addSheet bound_session (PStr ''X'') (PInt 1000) (PInt 26)) \<noteq> PNone
   \<and> (\<exists>res log'.
        runPrepared rejecting_service USER_ENTERED
          (prepare_addSheet bound_session (PStr ''X'') (PInt 1000) (PInt 26), []) =
          (res, bound_session, log')
        \<and> runPrepared positional_service USER_ENTERED (bound_session, log') =
            (Inr (PList [], PList []), bound_session, log'))"
proof -
  have h1: "spreadsheetId init_session = PNone" by (simp add: init_session_def)
  have h2: "spreadsheetId (prepare_addSheet bound_session (PStr ''X'') (PInt 1000) (PInt 26)) \<noteq> PNone"
    by (simp add: prepare_addSheet_def bound_session_def)
  have h3: "(prepare_addSheet bound_session (PStr ''X'') (PInt 1000) (PInt 26))
              \<lparr>requests := [], valueRanges := []\<rparr> = bound_session"
    by (simp add: prepare_addSheet_def bound_session_def)
  show ?thesis
    using h1 h2
      runPrepared_clears_queues[of init_session rejecting_service USER_ENTERED "[]"]
      runPrepared_clears_queues[of "prepare_addSheet bound_session (PStr ''X'') (PInt 1000) (PInt 26)"
        rejecting_service USER_ENTERED "[]" positional_service USER_ENTERED]
    by (simp add: h3)
qed

theorem runPrepared_clears_queues_counterexample:
  "spreadsheetId init_session = PNone
   \<and> runPrepared positional_service USER_ENTERED
       (prepare_addSheet init_session (PStr ''X'') (PInt 1000) (PInt 26), []) =
     (Inl SpreadsheetNotSetError,
      prepare_addSheet init_session (PStr ''X'') (PInt 1000) (PInt 26), [])
   \<and> requests (prepare_addSheet init_session (PStr ''X'') (PInt 1000) (PInt 26)) \<noteq> []"
  by (simp add: runPrepared_def prepare_addSheet_def init_session_def)

section \<open>What is checked when a request is queued\<close>

lemma str_toGridRange_errors:
  "str_toGridRange s = Inl e \<Longrightarrow> e = IndexError \<or> e = ValueError"
  by (auto simp: str_toGridRange_def Let_def
           split: list.splits option.splits if_splits sum.splits)

lemma toGridRange_not_spreadsheet_error:
  "toGridRange self x \<noteq> Inl SpreadsheetNotSetError"
  using str_toGridRange_errors
  by (auto simp: toGridRange_def split: pyval.splits sum.splits if_splits)

lemma toGridRange_no_sheet: "sheetId self = PNone \<Longrightarrow> toGridRange self x = Inl SheetNotSetError"
  by (simp add: toGridRange_def)

text \<open>
  C3, as amended. \<^verbatim>\<open>prepare_addSheet\<close> checks nothing: it appends its request in
  every state, also with no spreadsheet bound, and the SpreadsheetNotSetError comes when
  \<^verbatim>\<open>runPrepared\<close> is called, which raises it whenever no spreadsheet identifier is
  set. No other operation that appends to the structural queue looks at the spreadsheet
  identifier or raises SpreadsheetNotSetError; but the dimension operations and the
  operations that take a range raise SheetNotSetError when they are called with no sheet
  identifier bound, and queue nothing. With a sheet identifier bound the dimension
  operation returns normally, whether or not a spreadsheet is bound.
\<close>

theorem queueing_checks:
  "requests (prepare_addSheet self t r c) = requests self @
     [PDict [(''addSheet'', PDict [(''properties'',
        PDict [(''title'', t),
               (''gridProperties'', PDict [(''rowCount'', r), (''columnCount'', c)])])])]]
   \<and> (spreadsheetId self = PNone \<longrightarrow>
        runPrepared svc vio (prepare_addSheet self t r c, log) =
          (Inl SpreadsheetNotSetError, prepare_addSheet self t r c, log)
        \<and> runPrepared svc vio (self, log) = (Inl SpreadsheetNotSetError, self, log))
   \<and> fst (prepare_setDimensionPixelSize self d a b p) \<noteq> Inl SpreadsheetNotSetError
   \<and> fst (prepare_mergeCells self x m) \<noteq> Inl SpreadsheetNotSetError
   \<and> fst (prepare_setCellsFormat self x f fl) \<noteq> Inl SpreadsheetNotSetError
   \<and> fst (prepare_setCellsFormats self x fs fl) \<noteq> Inl SpreadsheetNotSetError
   \<and> (sheetId self = PNone \<longrightarrow>
        prepare_setDimensionPixelSize self d a b p = (Inl SheetNotSetError, self)
        \<and> prepare_setColumnsWidth self i j p = (Inl SheetNotSetError, self)
        \<and> prepare_setColumnWidth self i p = (Inl SheetNotSetError, self)
        \<and> prepare_setRowsHeight self i j p = (Inl SheetNotSetError, self)
        \<and> prepare_setRowHeight self i p = (Inl SheetNotSetError, self)
        \<and> prepare_mergeCells self x m = (Inl SheetNotSetError, self)
        \<and> prepare_setCellsFormat self x f fl = (Inl SheetNotSetError, self)
        \<and> prepare_setCellsFormats self x fs fl = (Inl SheetNotSetError, self))
   \<and> (sheetId self \<noteq> PNone \<longrightarrow> fst (prepare_setDimensionPixelSize self d a b p) = Inr ())"
proof -
  have a1: "requests (prepare_addSheet self t r c) = requests self @
     [PDict [(''addSheet'', PDict [(''properties'',
        PDict [(''title'', t),
               (''gridProperties'', PDict [(''rowCount'', r), (''columnCount'', c)])])])]]"
    by (simp add: prepare_addSheet_def)
  have a2: "spreadsheetId self = PNone \<longrightarrow>
        runPrepared svc vio (prepare_addSheet self t r c, log) =
          (Inl SpreadsheetNotSetError, prepare_addSheet self t r c, log)
        \<and> runPrepared svc vio (self, log) = (Inl SpreadsheetNotSetError, self, log)"
    by (simp add: runPrepared_unbound prepare_addSheet_def)
  have a3: "fst (prepare_setDimensionPixelSize self d a b p) \<noteq> Inl SpreadsheetNotSetError"
    by (simp add: prepare_setDimensionPixelSize_def)
  have a4: "fst (prepare_mergeCells self x m) \<noteq> Inl SpreadsheetNotSetError"
    using toGridRange_not_spreadsheet_error[of self x]
    by (auto simp: prepare_mergeCells_def split: sum.splits)
  have a5: "fst (prepare_setCellsFormat self x f fl) \<noteq> Inl SpreadsheetNotSetError"
    using toGridRange_not_spreadsheet_error[of self x]
    by (auto simp: prepare_setCellsFormat_def split: sum.splits)
  have a6: "fst (prepare_setCellsFormats self x fs fl) \<noteq> Inl SpreadsheetNotSetError"
    using toGridRange_not_spreadsheet_error[of self x]
    by (auto simp: prepare_setCellsFormats_def split: sum.splits)
  have a7: "sheetId self = PNone \<longrightarrow>
        prepare_setDimensionPixelSize self d a b p = (Inl SheetNotSetError, self)
        \<and> prepare_setColumnsWidth self i j p = (Inl SheetNotSetError, self)
        \<and> prepare_setColumnWidth self i p = (Inl SheetNotSetError, self)
        \<and> prepare_setRowsHeight self i j p = (Inl SheetNotSetError, self)
        \<and> prepare_setRowHeight self i p = (Inl SheetNotSetError, self)
        \<and> prepare_mergeCells self x m = (Inl SheetNotSetError, self)
        \<and> prepare_setCellsFormat self x f fl = (Inl SheetNotSetError, self)
        \<and> prepare_setCellsFormats self x fs fl = (Inl SheetNotSetError, self)"
    by (simp add: prepare_setDimensionPixelSize_def prepare_setColumnsWidth_def
          prepare_setColumnWidth_def prepare_setRowsHeight_def prepare_setRowHeight_def
          prepare_mergeCells_def prepare_setCellsFormat_def prepare_setCellsFormats_def
          toGridRange_no_sheet)
  have a8: "sheetId self \<noteq> PNone \<longrightarrow> fst (prepare_setDimensionPixelSize self d a b p) = Inr ()"
    by (simp add: prepare_setDimensionPixelSize_def)
  show ?thesis
    using a1 a2 a3 a4 a5 a6 a7 a8 by blast
qed

theorem queueing_checks_witness:
  "spreadsheetId init_session = PNone \<and> sheetId init_session = PNone
   \<and> runPrepared positional_service USER_ENTERED
       (prepare_addSheet init_session (PStr ''X'') (PInt 1000) (PInt 26), []) =
     (Inl SpreadsheetNotSetError,
      prepare_addSheet init_session (PStr ''X'') (PInt 1000) (PInt 26), [])
   \<and> prepare_mergeCells init_session (PStr ''A1:E1'') (PStr ''MERGE_ALL'') =
       (Inl SheetNotSetError, init_session)
   \<and> spreadsheetId sheet_only_session = PNone \<and> sheetId sheet_only_session \<noteq> PNone
   \<and> fst (prepare_setDimensionPixelSize sheet_only_session (PStr ''COLUMNS'') (PInt 0) (PInt 1)
            (PInt 500)) = Inr ()"
proof -
  have h1: "spreadsheetId init_session = PNone" by (simp add: init_session_def)
  have h2: "sheetId init_session = PNone" by (simp add: init_session_def)
  have h3: "spreadsheetId sheet_only_session = PNone" by (simp add: sheet_only_session_def)
  have h4: "sheetId sheet_only_session \<noteq> PNone" by (simp add: sheet_only_session_def)
  show ?thesis
    using h1 h2 h3 h4
      queueing_checks[of init_session "PStr ''X''" "PInt 1000" "PInt 26"
        positional_service USER_ENTERED "[]" _ _ _ _ "PStr ''A1:E1''" "PStr ''MERGE_ALL''"]
      queueing_checks[of sheet_only_session _ _ _ _ _ _ "PStr ''COLUMNS''" "PInt 0" "PInt 1"
        "PInt 500"]
    by simp
qed

theorem queueing_checks_counterexample:
  "spreadsheetId init_session = PNone
   \<and> prepare_setColumnWidth init_session 0 (PInt 500) = (Inl SheetNotSetError, init_session)"
  by (simp add: prepare_setColumnWidth_def prepare_setColumnsWidth_def
        prepare_setDimensionPixelSize_def init_session_def)

section \<open>Queueing a value write\<close>

text \<open>
  C7. With no sheet title bound, \<^verbatim>\<open>prepare_setValues\<close> raises SheetNotSetError
  and leaves the session, the value queue included, as it was. With the title bound to a
  string, it appends one entry to the value queue: the range is the title, an exclamation
  mark and the given range string, and the major dimension and the values are the ones
  given; nothing else changes.
\<close>

theorem prepare_setValues_entry:
  "(sheetTitle self = PNone \<longrightarrow>
      prepare_setValues self cellsRange vals majorDimension = (Inl SheetNotSetError, self))
   \<and> (sheetTitle self = PStr title \<longrightarrow>
        prepare_setValues self cellsRange vals majorDimension =
          (Inr (), self\<lparr>valueRanges := valueRanges self @
             [PDict [(''range'', PStr (title @ ''!'' @ cellsRange)),
                     (''majorDimension'', majorDimension),
                     (''values'', vals)]]\<rparr>))"
  by (simp add: prepare_setValues_def)

theorem prepare_setValues_entry_witness:
  "sheetTitle init_session = PNone
   \<and> prepare_setValues init_session ''A1:A1'' (PList [PList [PStr ''x'']]) ROWS =
       (Inl SheetNotSetError, init_session)
   \<and> sheetTitle bound_session = PStr ''Sheet1''
   \<and> prepare_setValues bound_session ''A1:A1'' (PList [PList [PStr ''x'']]) ROWS =
       (Inr (), bound_session\<lparr>valueRanges :=
          [PDict [(''range'', PStr ''Sheet1!A1:A1''),
                  (''majorDimension'', PStr ''ROWS''),
                  (''values'', PList [PList [PStr ''x'']])]]\<rparr>)
   \<and> runPrepared positional_service USER_ENTERED
       (bound_session\<lparr>valueRanges :=
          [PDict [(''range'', PStr ''Sheet1!A1:A1''),
                  (''majorDimension'', PStr ''ROWS''),
                  (''values'', PList [PList [PStr ''x'']])]]\<rparr>, []) =
       (Inr (PList [], PList [PDict []]), bound_session,
        [ValuesBatchUpdate (PStr ''doc'')
           (PDict [(''valueInputOption'', PStr ''USER_ENTERED''),
                   (''data'', PList
                      [PDict [(''range'', PStr ''Sheet1!A1:A1''),
                              (''majorDimension'', PStr ''ROWS''),
                              (''values'', PList [PList [PStr ''x'']])]])])])"
proof -
  have h1: "sheetTitle init_session = PNone" by (simp add: init_session_def)
  have h2: "sheetTitle bound_session = PStr ''Sheet1''" by (simp add: bound_session_def)
  have h3: "valueRanges bound_session = []" by (simp add: bound_session_def)
  have h4: "runPrepared positional_service USER_ENTERED
       (bound_session\<lparr>valueRanges :=
          [PDict [(''range'', PStr ''Sheet1!A1:A1''),
                  (''majorDimension'', PStr ''ROWS''),
                  (''values'', PList [PList [PStr ''x'']])]]\<rparr>, []) =
       (Inr (PList [], PList [PDict []]), bound_session,
        [ValuesBatchUpdate (PStr ''doc'')
           (PDict [(''valueInputOption'', PStr ''USER_ENTERED''),
                   (''data'', PList
                      [PDict [(''range'', PStr ''Sheet1!A1:A1''),
                              (''majorDimension'', PStr ''ROWS''),
                              (''values'', PList [PList [PStr ''x'']])]])])])"
    by (simp add: runPrepared_def run_calls_def positional_service_def py_get_def
          py_getitem_def USER_ENTERED_def bound_session_def)
  show ?thesis
    using h1 h2 h4
      prepare_setValues_entry[of init_session "''A1:A1''" "PList [PList [PStr ''x'']]" ROWS]
      prepare_setValues_entry[of bound_session "''A1:A1''" "PList [PList [PStr ''x'']]" ROWS
        "''Sheet1''"]
    by (simp add: h3 ROWS_def)
qed

section \<open>One column and a range of one column\<close>

text \<open>
  C9. For every column index and width, \<^verbatim>\<open>prepare_setColumnWidth(c, w)\<close> and
  \<^verbatim>\<open>prepare_setColumnsWidth(c, c, w)\<close> have the same outcome and leave the same
  session from the same session: with no sheet bound both raise SheetNotSetError and queue
  nothing; with a sheet bound both append the one request that resizes the columns from
  index c up to, not including, index c + 1.
\<close>

theorem prepare_setColumnWidth_range:
  "prepare_setColumnWidth self c w = prepare_setColumnsWidth self c c w
   \<and> (sheetId self = PNone \<longrightarrow>
        prepare_setColumnsWidth self c c w = (Inl SheetNotSetError, self))
   \<and> (sheetId self \<noteq> PNone \<longrightarrow>
        prepare_setColumnsWidth self c c w =
          (Inr (), self\<lparr>requests := requests self @
             [PDict [(''updateDimensionProperties'', PDict
                [(''range'', PDict [(''sheetId'', sheetId self),
                                    (''dimension'', PStr ''COLUMNS''),
                                    (''startIndex'', PInt c),
                                    (''endIndex'', PInt (c + 1))]),
                 (''properties'', PDict [(''pixelSize'', w)]),
                 (''fields'', PStr ''pixelSize'')])]]\<rparr>))"
  by (simp add: prepare_setColumnWidth_def prepare_setColumnsWidth_def
        prepare_setDimensionPixelSize_def)

theorem prepare_setColumnWidth_range_witness:
  "sheetId init_session = PNone
   \<and> prepare_setColumnWidth init_session 4 (PInt 100) = (Inl SheetNotSetError, init_session)
   \<and> sheetId bound_session \<noteq> PNone
   \<and> prepare_setColumnWidth bound_session 4 (PInt 100) =
       (Inr (), bound_session\<lparr>requests :=
          [PDict [(''updateDimensionProperties'', PDict
             [(''range'', PDict [(''sheetId'', PInt 7),
                                 (''dimension'', PStr ''COLUMNS''),
                                 (''startIndex'', PInt 4),
                                 (''endIndex'', PInt 5)]),
              (''properties'', PDict [(''pixelSize'', PInt 100)]),
              (''fields'', PStr ''pixelSize'')])]]\<rparr>)"
proof -
  have h1: "sheetId init_session = PNone" by (simp add: init_session_def)
  have h2: "sheetId bound_session \<noteq> PNone" by (simp add: bound_session_def)
  have h3: "sheetId bound_session = PInt 7" by (simp add: bound_session_def)
  have h4: "requests bound_session = []" by (simp add: bound_session_def)
  show ?thesis
    using h1 h2
      prepare_setColumnWidth_range[of init_session 4 "PInt 100"]
      prepare_setColumnWidth_range[of bound_session 4 "PInt 100"]
    by (simp add: h3 h4)
qed

section \<open>Adding a sheet with requests already queued\<close>

text \<open>
  With a spreadsheet bound, \<^verbatim>\<open>addSheet\<close> leaves both queues empty, and its first
  outbound call is the one structural batch that carries every request queued before it
  followed by the add-sheet request.
\<close>

lemma addSheet_flushes_queue:
  assumes "spreadsheetId self \<noteq> PNone"
  shows "requests (fst (snd (addSheet svc t r c (self, log)))) = []
       \<and> valueRanges (fst (snd (addSheet svc t r c (self, log)))) = []
       \<and> take (Suc (length log)) (snd (snd (addSheet svc t r c (self, log)))) =
           log @ [BatchUpdate (spreadsheetId self)
                    (PDict [(''requests'', PList (requests (prepare_addSheet self t r c)))])]"
  using assms
  by (auto simp: addSheet_def runPrepared_def run_calls_def prepare_addSheet_def Let_def
           split: prod.splits sum.splits)

text \<open>
  C10, the failing input. The session is bound and an add-sheet request for a sheet X is
  already queued; \<^verbatim>\<open>addSheet\<close> is called for a sheet Y. One structural batch
  carries both requests, X first, and the service answers them in that order: it gives X the
  identifier 100 and Y the identifier 101. \<^verbatim>\<open>addSheet\<close> reads the first reply: it
  returns 100 and binds the session to sheet 100 with title X, not to the sheet it added.
\<close>

theorem addSheet_binds_first_reply:
  "addSheet positional_service (PStr ''Y'') (PInt 1000) (PInt 26)
     (prepare_addSheet bound_session (PStr ''X'') (PInt 1000) (PInt 26), []) =
   (Inr (PInt 100),
    bound_session\<lparr>sheetId := PInt 100, sheetTitle := PStr ''X''\<rparr>,
    [BatchUpdate (PStr ''doc'')
       (PDict [(''requests'', PList
          [PDict [(''addSheet'', PDict [(''properties'',
             PDict [(''title'', PStr ''X''),
                    (''gridProperties'',
                     PDict [(''rowCount'', PInt 1000), (''columnCount'', PInt 26)])])])],
           PDict [(''addSheet'', PDict [(''properties'',
             PDict [(''title'', PStr ''Y''),
                    (''gridProperties'',
                     PDict [(''rowCount'', PInt 1000), (''columnCount'', PInt 26)])])])]])])])
   \<and> positional_service []
       (BatchUpdate (PStr ''doc'')
          (PDict [(''requests'', PList
             [PDict [(''addSheet'', PDict [(''properties'',
                PDict [(''title'', PStr ''X''),
                       (''gridProperties'',
                        PDict [(''rowCount'', PInt 1000), (''columnCount'', PInt 26)])])])],
              PDict [(''addSheet'', PDict [(''properties'',
                PDict [(''title'', PStr ''Y''),
                       (''gridProperties'',
                        PDict [(''rowCount'', PInt 1000), (''columnCount'', PInt 26)])])])]])])) =
     Inr (PDict [(''spreadsheetId'', PStr ''doc''),
                 (''replies'', PList
                    [PDict [(''addSheet'', PDict [(''properties'',
                       PDict [(''title'', PStr ''X''),
                              (''gridProperties'',
                               PDict [(''rowCount'', PInt 1000), (''columnCount'', PInt 26)]),
                              (''sheetId'', PInt 100)])])],
                     PDict [(''addSheet'', PDict [(''properties'',
                       PDict [(''title'', PStr ''Y''),
                              (''gridProperties'',
                               PDict [(''rowCount'', PInt 1000), (''columnCount'', PInt 26)]),
                              (''sheetId'', PInt 101)])])]])])"
  by (simp add: addSheet_def runPrepared_def run_calls_def prepare_addSheet_def
        positional_service_def reply_for_def first_added_def py_getitem0_def py_getitem_def
        py_get_def py_setitem_def USER_ENTERED_def bound_session_def enumerate_eq_zip upt_rec)

text \<open>
  With a request of another kind queued first, the first reply is an empty object:
  \<^verbatim>\<open>addSheet\<close> raises KeyError after the batch has been sent, and the session stays
  bound to the sheet it had.
\<close>

lemma addSheet_after_column_width:
  "addSheet positional_service (PStr ''Y'') (PInt 1000) (PInt 26)
     (snd (prepare_setColumnWidth bound_session 0 (PInt 500)), []) =
   (Inl KeyError, bound_session,
    [BatchUpdate (PStr ''doc'')
       (PDict [(''requests'', PList
          [PDict [(''updateDimensionProperties'', PDict
             [(''range'', PDict [(''sheetId'', PInt 7),
                                 (''dimension'', PStr ''COLUMNS''),
                                 (''startIndex'', PInt 0),
                                 (''endIndex'', PInt 1)]),
              (''properties'', PDict [(''pixelSize'', PInt 500)]),
              (''fields'', PStr ''pixelSize'')])],
           PDict [(''addSheet'', PDict [(''properties'',
             PDict [(''title'', PStr ''Y''),
                    (''gridProperties'',
                     PDict [(''rowCount'', PInt 1000), (''columnCount'', PInt 26)])])])]])])])"
  by (simp add: addSheet_def runPrepared_def run_calls_def prepare_addSheet_def
        prepare_setColumnWidth_def prepare_setColumnsWidth_def prepare_setDimensionPixelSize_def
        positional_service_def reply_for_def first_added_def py_getitem0_def py_getitem_def
        py_get_def py_setitem_def USER_ENTERED_def bound_session_def enumerate_eq_zip upt_rec)

text \<open>
  With nothing queued, the only reply is the one for the added sheet, and the session is
  bound to it.
\<close>

lemma addSheet_alone:
  "addSheet positional_service (PStr ''Y'') (PInt 1000) (PInt 26) (bound_session, []) =
   (Inr (PInt 100),
    bound_session\<lparr>sheetId := PInt 100, sheetTitle := PStr ''Y''\<rparr>,
    [BatchUpdate (PStr ''doc'')
       (PDict [(''requests'', PList
          [PDict [(''addSheet'', PDict [(''properties'',
             PDict [(''title'', PStr ''Y''),
                    (''gridProperties'',
                     PDict [(''rowCount'', PInt 1000), (''columnCount'', PInt 26)])])])]])])])"
  by (simp add: addSheet_def runPrepared_def run_calls_def prepare_addSheet_def
        positional_service_def reply_for_def first_added_def py_getitem0_def py_getitem_def
        py_get_def py_setitem_def USER_ENTERED_def bound_session_def enumerate_eq_zip upt_rec)

end
